theory Spec2Isabelle
  imports Main
begin

unbundle bit_operations_syntax

section \<open>C declarations as data\<close>

text \<open>
  The repository is one C header, \<^verbatim>\<open>src/libzfs_core-sys/zfscore.h\<close>: typedefs, a
  forward declaration of a struct, two enumerations and 24 function prototypes. It has no
  function bodies, so the embedding is the declarations themselves, as values of the
  datatypes below, together with the rules of the C language that give a declaration its
  meaning (the numbering of enumerators, the resolution of typedef names, which parameter
  types let the callee write back to the caller).
\<close>

text \<open>An enumerator of an enum body: its name and its initialiser, when it has one.\<close>

datatype enumerator = Enumerator (ename: string) (einit: "int option")

text \<open>
  The types the header writes. \<open>Named\<close> is a typedef name, \<open>StructT\<close> and \<open>EnumT\<close> refer
  to a tag, \<open>EnumAnon\<close> is an enum specifier with a body and no tag.
\<close>

datatype ctype =
    VoidT
  | CharT
  | IntT
  | UnsignedLongLongIntT
  | Const ctype
  | Ptr ctype
  | StructT string
  | EnumT string
  | EnumAnon "enumerator list"
  | Named string

text \<open>A parameter of a prototype (or a member of a struct): an optional name and a type.\<close>

datatype param = Param (pname: "string option") (ptype: ctype)

text \<open>A function prototype. The parameter list \<^verbatim>\<open>(void)\<close> is the empty list.\<close>

datatype fundecl = Fun (fname: string) (ret: ctype) (params: "param list")

text \<open>
  The declarations a header is made of. \<open>StructFwd\<close> is \<^verbatim>\<open>struct tag;\<close>, \<open>StructDef\<close> is
  \<^verbatim>\<open>struct tag { members };\<close>, \<open>EnumDef\<close> is \<^verbatim>\<open>enum tag { enumerators };\<close>.
\<close>

datatype decl =
    Typedef ctype string
  | StructFwd string
  | StructDef string "param list"
  | EnumDef string "enumerator list"
  | Function fundecl

subsection \<open>The header \<^verbatim>\<open>zfscore.h\<close>, line by line\<close>

abbreviation const_char_p :: ctype where
  "const_char_p \<equiv> Ptr (Const CharT)"

abbreviation nvlist_p :: ctype where
  "nvlist_p \<equiv> Ptr (Named ''nvlist_t'')"

abbreviation nvlist_pp :: ctype where
  "nvlist_pp \<equiv> Ptr (Ptr (Named ''nvlist_t''))"

abbreviation anon :: "ctype \<Rightarrow> param" where
  "anon t \<equiv> Param None t"

definition lzc_send_flags_body :: "enumerator list" where
  "lzc_send_flags_body =
    [Enumerator ''LZC_SEND_FLAG_EMBED_DATA'' (Some 1),
     Enumerator ''LZC_SEND_FLAG_LARGE_BLOCK'' (Some 2)]"

definition dmu_objset_type_body :: "enumerator list" where
  "dmu_objset_type_body =
    [Enumerator ''DMU_OST_NONE'' None,
     Enumerator ''DMU_OST_META'' None,
     Enumerator ''DMU_OST_ZFS'' None,
     Enumerator ''DMU_OST_ZVOL'' None,
     Enumerator ''DMU_OST_OTHER'' None,
     Enumerator ''DMU_OST_ANY'' None,
     Enumerator ''DMU_OST_NUMTYPES'' None]"

text \<open>The 24 prototypes, lines 19 to 42 of the header.\<close>

definition zfscore_prototypes :: "fundecl list" where
  "zfscore_prototypes =
    [Fun ''libzfs_core_init'' IntT [],
     Fun ''libzfs_core_fini'' VoidT [],
     Fun ''lzc_snapshot'' IntT [anon nvlist_p, anon nvlist_p, anon nvlist_pp],
     Fun ''lzc_create'' IntT
       [anon const_char_p, anon (Named ''dmu_objset_type_t''), anon nvlist_p],
     Fun ''lzc_clone'' IntT [anon const_char_p, anon const_char_p, anon nvlist_p],
     Fun ''lzc_destroy_snaps'' IntT
       [anon nvlist_p, anon (Named ''boolean_t''), anon nvlist_pp],
     Fun ''lzc_bookmark'' IntT [anon nvlist_p, anon nvlist_pp],
     Fun ''lzc_get_bookmarks'' IntT [anon const_char_p, anon nvlist_p, anon nvlist_pp],
     Fun ''lzc_destroy_bookmarks'' IntT [anon nvlist_p, anon nvlist_pp],
     Fun ''lzc_snaprange_space'' IntT
       [anon const_char_p, anon const_char_p, anon (Ptr (Named ''uint64_t''))],
     Fun ''lzc_hold'' IntT [anon nvlist_p, anon IntT, anon nvlist_pp],
     Fun ''lzc_release'' IntT [anon nvlist_p, anon nvlist_pp],
     Fun ''lzc_get_holds'' IntT [anon const_char_p, anon nvlist_pp],
     Fun ''lzc_send'' IntT
       [anon const_char_p, anon const_char_p, anon IntT, anon (EnumT ''lzc_send_flags'')],
     Fun ''lzc_receive'' IntT
       [anon const_char_p, anon nvlist_p, anon const_char_p, anon (Named ''boolean_t''),
        anon IntT],
     Fun ''lzc_send_space'' IntT
       [anon const_char_p, anon const_char_p, anon (Ptr (Named ''uint64_t''))],
     Fun ''lzc_exists'' (Named ''boolean_t'') [anon const_char_p],
     Fun ''lzc_rollback'' IntT [anon const_char_p, anon (Ptr CharT), anon IntT],
     Fun ''lzc_promote'' IntT [anon const_char_p, anon nvlist_p, anon nvlist_pp],
     Fun ''lzc_rename'' IntT
       [anon const_char_p, anon const_char_p, anon nvlist_p, anon (Ptr (Ptr CharT))],
     Fun ''lzc_destroy_one'' IntT
       [Param (Some ''fsname'') const_char_p, anon nvlist_p],
     Fun ''lzc_inherit'' IntT
       [Param (Some ''fsname'') const_char_p, Param (Some ''name'') const_char_p,
        anon nvlist_p],
     Fun ''lzc_set_props'' IntT
       [anon const_char_p, anon nvlist_p, anon nvlist_p, anon nvlist_p],
     Fun ''lzc_list'' IntT [anon const_char_p, anon nvlist_p]]"

text \<open>The header: its type declarations, then its prototypes.\<close>

definition zfscore_h :: "decl list" where
  "zfscore_h =
    [Typedef UnsignedLongLongIntT ''uint64_t'',
     Typedef IntT ''boolean_t'',
     StructFwd ''nvlist'',
     Typedef (StructT ''nvlist'') ''nvlist_t'',
     EnumDef ''lzc_send_flags'' lzc_send_flags_body,
     Typedef (EnumAnon dmu_objset_type_body) ''dmu_objset_type_t'']
    @ map Function zfscore_prototypes"

subsection \<open>Reading a header\<close>

text \<open>The prototypes of a header, in the order they are declared.\<close>

fun prototypes :: "decl list \<Rightarrow> fundecl list" where
  "prototypes [] = []"
| "prototypes (Function f # ds) = f # prototypes ds"
| "prototypes (_ # ds) = prototypes ds"

definition lookup_fun :: "decl list \<Rightarrow> string \<Rightarrow> fundecl option" where
  "lookup_fun hdr n = find (\<lambda>f. fname f = n) (prototypes hdr)"

text \<open>The typedef names of a header, each with the type it names.\<close>

fun typedefs :: "decl list \<Rightarrow> (string \<times> ctype) list" where
  "typedefs [] = []"
| "typedefs (Typedef t n # ds) = (n, t) # typedefs ds"
| "typedefs (_ # ds) = typedefs ds"

definition typedef_of :: "decl list \<Rightarrow> string \<Rightarrow> ctype option" where
  "typedef_of hdr n = map_of (typedefs hdr) n"

text \<open>The enumerations of a header by tag, and the struct tags it declares and defines.\<close>

fun enum_defs :: "decl list \<Rightarrow> (string \<times> enumerator list) list" where
  "enum_defs [] = []"
| "enum_defs (EnumDef tag es # ds) = (tag, es) # enum_defs ds"
| "enum_defs (_ # ds) = enum_defs ds"

fun struct_fwds :: "decl list \<Rightarrow> string list" where
  "struct_fwds [] = []"
| "struct_fwds (StructFwd tag # ds) = tag # struct_fwds ds"
| "struct_fwds (_ # ds) = struct_fwds ds"

fun struct_defs :: "decl list \<Rightarrow> (string \<times> param list) list" where
  "struct_defs [] = []"
| "struct_defs (StructDef tag ms # ds) = (tag, ms) # struct_defs ds"
| "struct_defs (_ # ds) = struct_defs ds"

subsection \<open>The value of an enumerator\<close>

text \<open>
  The rule of C (ISO C, 6.7.2.2): an enumerator with an initialiser has that value; one
  without has 0 when it is the first, and the value of the one before it plus 1 otherwise.
\<close>

fun enum_values_from :: "int \<Rightarrow> enumerator list \<Rightarrow> (string \<times> int) list" where
  "enum_values_from nxt [] = []"
| "enum_values_from nxt (Enumerator n i # es) =
     (let v = (case i of Some k \<Rightarrow> k | None \<Rightarrow> nxt)
      in (n, v) # enum_values_from (v + 1) es)"

definition enum_values :: "enumerator list \<Rightarrow> (string \<times> int) list" where
  "enum_values es = enum_values_from 0 es"

text \<open>The enumerators behind a typedef name that names an enum with a body.\<close>

definition typedef_enum_values :: "decl list \<Rightarrow> string \<Rightarrow> (string \<times> int) list option" where
  "typedef_enum_values hdr n =
     (case typedef_of hdr n of
        Some (EnumAnon es) \<Rightarrow> Some (enum_values es)
      | _ \<Rightarrow> None)"

definition tagged_enum_values :: "decl list \<Rightarrow> string \<Rightarrow> (string \<times> int) list option" where
  "tagged_enum_values hdr tag = map_option enum_values (map_of (enum_defs hdr) tag)"

subsection \<open>Typedef names\<close>

text \<open>
  A typedef name stands for the type it was declared with. \<open>resolve\<close> replaces every
  typedef name in a type, also under pointers and qualifiers. The fuel is the number of
  typedefs of the header: a chain of typedef names cannot be longer.
\<close>

fun resolve_fuel :: "nat \<Rightarrow> decl list \<Rightarrow> ctype \<Rightarrow> ctype" where
  "resolve_fuel 0 hdr (Named n) = Named n"
| "resolve_fuel (Suc k) hdr (Named n) =
     (case typedef_of hdr n of Some u \<Rightarrow> resolve_fuel k hdr u | None \<Rightarrow> Named n)"
| "resolve_fuel k hdr (Ptr t) = Ptr (resolve_fuel k hdr t)"
| "resolve_fuel k hdr (Const t) = Const (resolve_fuel k hdr t)"
| "resolve_fuel k hdr t = t"

definition resolve :: "decl list \<Rightarrow> ctype \<Rightarrow> ctype" where
  "resolve hdr t = resolve_fuel (length (typedefs hdr)) hdr t"

subsection \<open>Integer types\<close>

text \<open>
  What ISO C fixes for the arithmetic types the header uses (6.2.5 and 5.2.4.2.1):
  \<^verbatim>\<open>int\<close> is a signed integer type of at least 16 bits, \<^verbatim>\<open>unsigned long long int\<close> an
  unsigned one of at least 64 bits, and \<^verbatim>\<open>char\<close> has at least 8 bits and a signedness
  the implementation chooses. \<open>min_width\<close> is the least width the standard allows.
\<close>

datatype signedness = Signed | Unsigned

fun signedness_of :: "ctype \<Rightarrow> signedness option" where
  "signedness_of IntT = Some Signed"
| "signedness_of UnsignedLongLongIntT = Some Unsigned"
| "signedness_of _ = None"

fun min_width :: "ctype \<Rightarrow> nat option" where
  "min_width CharT = Some 8"
| "min_width IntT = Some 16"
| "min_width UnsignedLongLongIntT = Some 64"
| "min_width _ = None"

subsection \<open>What a prototype lets through\<close>

text \<open>
  The object type at the bottom of a type, under its pointers and qualifiers, and the
  number of pointers above it.
\<close>

fun base_type :: "ctype \<Rightarrow> ctype" where
  "base_type (Ptr t) = base_type t"
| "base_type (Const t) = base_type t"
| "base_type t = t"

fun ptr_depth :: "ctype \<Rightarrow> nat" where
  "ptr_depth (Ptr t) = Suc (ptr_depth t)"
| "ptr_depth (Const t) = ptr_depth t"
| "ptr_depth t = 0"

text \<open>A type handles nvlists when, typedef names resolved, it is built on \<^verbatim>\<open>struct nvlist\<close>.\<close>

definition handles_nvlist :: "decl list \<Rightarrow> ctype \<Rightarrow> bool" where
  "handles_nvlist hdr t = (base_type (resolve hdr t) = StructT ''nvlist'')"

text \<open>
  A C function hands data back to its caller through its return value, unless that is
  \<^verbatim>\<open>void\<close>, and through the parameters that point to an object it may write: a pointer
  whose target is not \<^verbatim>\<open>const\<close>. A \<^verbatim>\<open>const\<close> on the parameter itself changes nothing
  for the caller.
\<close>

fun writable :: "ctype \<Rightarrow> bool" where
  "writable (Ptr (Const t)) = False"
| "writable (Ptr t) = True"
| "writable (Const t) = writable t"
| "writable t = False"

definition out_params :: "decl list \<Rightarrow> fundecl \<Rightarrow> param list" where
  "out_params hdr f = filter (\<lambda>p. writable (resolve hdr (ptype p))) (params f)"

definition returns_value :: "decl list \<Rightarrow> fundecl \<Rightarrow> bool" where
  "returns_value hdr f = (resolve hdr (ret f) \<noteq> VoidT)"

text \<open>The types of everything a call hands back: the return value first, when there is one.\<close>

definition result_channels :: "decl list \<Rightarrow> fundecl \<Rightarrow> ctype list" where
  "result_channels hdr f =
     (if returns_value hdr f then [ret f] else []) @ map ptype (out_params hdr f)"

text \<open>A prototype returns an integer code when its return type, resolved, is \<^verbatim>\<open>int\<close>.\<close>

definition returns_int :: "decl list \<Rightarrow> fundecl \<Rightarrow> bool" where
  "returns_int hdr f = (resolve hdr (ret f) = IntT)"

subsection \<open>The send flags\<close>

text \<open>
  The two enumerators of \<^verbatim>\<open>enum lzc_send_flags\<close>. The value of each is read from the
  header. Flags are combined with C's \<^verbatim>\<open>|\<close> and tested with \<^verbatim>\<open>&\<close>; enumeration
  constants have type \<^verbatim>\<open>int\<close>, modelled here without a width.
\<close>

datatype lzc_send_flags = LZC_SEND_FLAG_EMBED_DATA | LZC_SEND_FLAG_LARGE_BLOCK

fun flag_name :: "lzc_send_flags \<Rightarrow> string" where
  "flag_name LZC_SEND_FLAG_EMBED_DATA = ''LZC_SEND_FLAG_EMBED_DATA''"
| "flag_name LZC_SEND_FLAG_LARGE_BLOCK = ''LZC_SEND_FLAG_LARGE_BLOCK''"

definition flag_value :: "decl list \<Rightarrow> lzc_send_flags \<Rightarrow> int" where
  "flag_value hdr f =
     (case tagged_enum_values hdr ''lzc_send_flags'' of
        Some vs \<Rightarrow> (case map_of vs (flag_name f) of Some v \<Rightarrow> v | None \<Rightarrow> 0)
      | None \<Rightarrow> 0)"

definition send_flags_mask :: "lzc_send_flags list \<Rightarrow> int" where
  "send_flags_mask fs = fold (\<lambda>f m. m OR flag_value zfscore_h f) fs 0"

definition has_flag :: "int \<Rightarrow> lzc_send_flags \<Rightarrow> bool" where
  "has_flag m f = (m AND flag_value zfscore_h f \<noteq> 0)"

text \<open>The position of the one bit a flag sets.\<close>

fun flag_bit :: "lzc_send_flags \<Rightarrow> nat" where
  "flag_bit LZC_SEND_FLAG_EMBED_DATA = 0"
| "flag_bit LZC_SEND_FLAG_LARGE_BLOCK = 1"

section \<open>Facts about the header\<close>

lemma prototypes_map_Function: "prototypes (map Function fs) = fs"
  by (induction fs) simp_all

lemma typedefs_map_Function: "typedefs (map Function fs) = []"
  by (induction fs) simp_all

lemma enum_defs_map_Function: "enum_defs (map Function fs) = []"
  by (induction fs) simp_all

lemma struct_fwds_map_Function: "struct_fwds (map Function fs) = []"
  by (induction fs) simp_all

lemma struct_defs_map_Function: "struct_defs (map Function fs) = []"
  by (induction fs) simp_all

lemma prototypes_zfscore_h: "prototypes zfscore_h = zfscore_prototypes"
  by (simp add: zfscore_h_def prototypes_map_Function)

lemma typedefs_zfscore_h:
  "typedefs zfscore_h =
    [(''uint64_t'', UnsignedLongLongIntT), (''boolean_t'', IntT),
     (''nvlist_t'', StructT ''nvlist''),
     (''dmu_objset_type_t'', EnumAnon dmu_objset_type_body)]"
  by (simp add: zfscore_h_def typedefs_map_Function)

lemma enum_defs_zfscore_h: "enum_defs zfscore_h = [(''lzc_send_flags'', lzc_send_flags_body)]"
  by (simp add: zfscore_h_def enum_defs_map_Function)

lemma resolve_simps:
  "resolve zfscore_h (Ptr t) = Ptr (resolve zfscore_h t)"
  "resolve zfscore_h (Const t) = Const (resolve zfscore_h t)"
  "resolve zfscore_h VoidT = VoidT"
  "resolve zfscore_h CharT = CharT"
  "resolve zfscore_h IntT = IntT"
  "resolve zfscore_h (EnumT tag) = EnumT tag"
  "resolve zfscore_h (Named ''uint64_t'') = UnsignedLongLongIntT"
  "resolve zfscore_h (Named ''boolean_t'') = IntT"
  "resolve zfscore_h (Named ''nvlist_t'') = StructT ''nvlist''"
  "resolve zfscore_h (Named ''dmu_objset_type_t'') = EnumAnon dmu_objset_type_body"
  by (simp_all add: resolve_def typedefs_zfscore_h typedef_of_def)

section \<open>The enumeration \<^verbatim>\<open>dmu_objset_type_t\<close>\<close>

text \<open>
  Claim C2. The enumeration \<^verbatim>\<open>dmu_objset_type_t\<close> has exactly seven enumerators, in the
  declared order none, meta, filesystem (\<^verbatim>\<open>DMU_OST_ZFS\<close>), volume (\<^verbatim>\<open>DMU_OST_ZVOL\<close>),
  other, any and the count sentinel (\<^verbatim>\<open>DMU_OST_NUMTYPES\<close>), and their values are 0 to 6
  in that order.
\<close>

theorem dmu_objset_type_t_values:
  "typedef_enum_values zfscore_h ''dmu_objset_type_t'' =
     Some [(''DMU_OST_NONE'', 0), (''DMU_OST_META'', 1), (''DMU_OST_ZFS'', 2),
           (''DMU_OST_ZVOL'', 3), (''DMU_OST_OTHER'', 4), (''DMU_OST_ANY'', 5),
           (''DMU_OST_NUMTYPES'', 6)]"
  by (simp add: typedef_enum_values_def typedef_of_def typedefs_zfscore_h enum_values_def
      dmu_objset_type_body_def)


section \<open>The send flags as a bit mask\<close>

lemma lzc_send_flags_enum:
  "tagged_enum_values zfscore_h ''lzc_send_flags'' =
     Some [(''LZC_SEND_FLAG_EMBED_DATA'', 1), (''LZC_SEND_FLAG_LARGE_BLOCK'', 2)]"
  by (simp add: tagged_enum_values_def enum_defs_zfscore_h enum_values_def
      lzc_send_flags_body_def)

lemma flag_value_embed: "flag_value zfscore_h LZC_SEND_FLAG_EMBED_DATA = 1"
  by (simp add: flag_value_def lzc_send_flags_enum)

lemma flag_value_large: "flag_value zfscore_h LZC_SEND_FLAG_LARGE_BLOCK = 2"
  by (simp add: flag_value_def lzc_send_flags_enum)

lemma flag_value_exp: "flag_value zfscore_h f = 2 ^ flag_bit f"
  by (cases f) (simp_all add: flag_value_embed flag_value_large)

lemma flag_bit_inj: "flag_bit f = flag_bit g \<longleftrightarrow> f = g"
  by (cases f; cases g) simp_all

text \<open>A bit of the combination is set when it was set before or some flag of the list sets it.\<close>

lemma bit_fold_or:
  "bit (fold (\<lambda>f m. m OR flag_value zfscore_h f) fs m0) n \<longleftrightarrow>
     bit m0 n \<or> (\<exists>f \<in> set fs. flag_bit f = n)"
proof (induction fs arbitrary: m0)
  case Nil
  show ?case by simp
next
  case (Cons g gs)
  have "bit (fold (\<lambda>f m. m OR flag_value zfscore_h f) (g # gs) m0) n \<longleftrightarrow>
        bit (m0 OR flag_value zfscore_h g) n \<or> (\<exists>f \<in> set gs. flag_bit f = n)"
    using Cons.IH [of "m0 OR flag_value zfscore_h g"] by simp
  also have "bit (m0 OR flag_value zfscore_h g) n \<longleftrightarrow> bit m0 n \<or> flag_bit g = n"
    by (auto simp add: bit_or_iff flag_value_exp bit_exp_iff)
  finally show ?case by auto
qed

lemma has_flag_mask: "has_flag (send_flags_mask fs) f \<longleftrightarrow> f \<in> set fs"
proof -
  have "has_flag (send_flags_mask fs) f \<longleftrightarrow> bit (send_flags_mask fs) (flag_bit f)"
    by (simp add: has_flag_def flag_value_exp and_exp_eq_0_iff_not_bit)
  also have "\<dots> \<longleftrightarrow> (\<exists>g \<in> set fs. flag_bit g = flag_bit f)"
    by (simp add: send_flags_mask_def bit_fold_or)
  also have "\<dots> \<longleftrightarrow> f \<in> set fs"
    by (auto simp add: flag_bit_inj)
  finally show ?thesis .
qed

lemma fold_or_range:
  "m0 \<in> {0, 1, 2, 3} \<Longrightarrow>
   fold (\<lambda>f m. m OR flag_value zfscore_h f) fs m0 \<in> {0, 1, 2, 3}"
proof (induction fs arbitrary: m0)
  case Nil
  then show ?case by simp
next
  case (Cons g gs)
  have "m0 OR flag_value zfscore_h g \<in> {0, 1, 2, 3}"
    using Cons.prems by (cases g) (auto simp add: flag_value_embed flag_value_large)
  then show ?case using Cons.IH by simp
qed

lemma send_flags_mask_range: "send_flags_mask fs \<in> {0, 1, 2, 3}"
  unfolding send_flags_mask_def by (rule fold_or_range) simp

text \<open>
  Claim C3. \<^verbatim>\<open>enum lzc_send_flags\<close> has exactly the two enumerators
  \<^verbatim>\<open>LZC_SEND_FLAG_EMBED_DATA = 1\<close> and \<^verbatim>\<open>LZC_SEND_FLAG_LARGE_BLOCK = 2\<close>. The two values
  share no bit. For every list of flags \<open>fs\<close> (so for every subset, in any order and with
  repetitions), the bitwise OR of their values lies between 0 and 3, so it fits every
  integer type, and testing it against the value of a flag \<open>f\<close> with bitwise AND tells
  exactly whether \<open>f\<close> is in \<open>fs\<close>.
\<close>

theorem lzc_send_flags_bitmask:
  "tagged_enum_values zfscore_h ''lzc_send_flags'' =
     Some [(''LZC_SEND_FLAG_EMBED_DATA'', 1), (''LZC_SEND_FLAG_LARGE_BLOCK'', 2)]
   \<and> flag_value zfscore_h LZC_SEND_FLAG_EMBED_DATA
       AND flag_value zfscore_h LZC_SEND_FLAG_LARGE_BLOCK = 0
   \<and> 0 \<le> send_flags_mask fs \<and> send_flags_mask fs \<le> 3
   \<and> (has_flag (send_flags_mask fs) f \<longleftrightarrow> f \<in> set fs)"
proof -
  have disjoint: "flag_value zfscore_h LZC_SEND_FLAG_EMBED_DATA
       AND flag_value zfscore_h LZC_SEND_FLAG_LARGE_BLOCK = 0"
    by (simp add: flag_value_embed flag_value_large)
  have range: "0 \<le> send_flags_mask fs \<and> send_flags_mask fs \<le> 3"
    using send_flags_mask_range [of fs] by auto
  show ?thesis
    using lzc_send_flags_enum disjoint range has_flag_mask [of fs f] by blast
qed

section \<open>The primitive types\<close>

text \<open>
  Claim C4. \<^verbatim>\<open>uint64_t\<close> is declared as \<^verbatim>\<open>unsigned long long int\<close>, an unsigned integer
  type that C guarantees at least 64 bits; \<^verbatim>\<open>boolean_t\<close> is declared as plain \<^verbatim>\<open>int\<close>,
  a signed integer type; and \<^verbatim>\<open>nvlist_t\<close> names the type \<^verbatim>\<open>struct nvlist\<close>.
\<close>

theorem primitive_type_shapes:
  "typedef_of zfscore_h ''uint64_t'' = Some UnsignedLongLongIntT
   \<and> signedness_of (resolve zfscore_h (Named ''uint64_t'')) = Some Unsigned
   \<and> min_width (resolve zfscore_h (Named ''uint64_t'')) = Some 64
   \<and> typedef_of zfscore_h ''boolean_t'' = Some IntT
   \<and> signedness_of (resolve zfscore_h (Named ''boolean_t'')) = Some Signed
   \<and> typedef_of zfscore_h ''nvlist_t'' = Some (StructT ''nvlist'')
   \<and> resolve zfscore_h (Named ''nvlist_t'') = StructT ''nvlist''"
  by (simp add: typedef_of_def typedefs_zfscore_h resolve_simps)

section \<open>The nvlist type is opaque\<close>

lemma handles_nvlist_simps:
  "handles_nvlist zfscore_h (Ptr t) = handles_nvlist zfscore_h t"
  "handles_nvlist zfscore_h (Const t) = handles_nvlist zfscore_h t"
  "handles_nvlist zfscore_h (Named ''nvlist_t'')"
  "\<not> handles_nvlist zfscore_h (Named ''uint64_t'')"
  "\<not> handles_nvlist zfscore_h (Named ''boolean_t'')"
  "\<not> handles_nvlist zfscore_h (Named ''dmu_objset_type_t'')"
  "\<not> handles_nvlist zfscore_h (EnumT tag)"
  "\<not> handles_nvlist zfscore_h IntT"
  "\<not> handles_nvlist zfscore_h CharT"
  "\<not> handles_nvlist zfscore_h VoidT"
  by (simp_all add: handles_nvlist_def resolve_simps)

text \<open>
  Claim C6. The header declares \<^verbatim>\<open>struct nvlist\<close> and never defines it (it defines no
  struct at all), and \<^verbatim>\<open>nvlist_t\<close> names that incomplete type. No prototype returns a
  type built on it, and every parameter built on it has the type \<^verbatim>\<open>nvlist_t *\<close> or
  \<^verbatim>\<open>nvlist_t **\<close>: an nvlist crosses the interface behind a pointer, never by value.
\<close>

theorem nvlist_opaque:
  "struct_fwds zfscore_h = [''nvlist'']
   \<and> struct_defs zfscore_h = []
   \<and> typedef_of zfscore_h ''nvlist_t'' = Some (StructT ''nvlist'')
   \<and> (\<forall>f \<in> set (prototypes zfscore_h).
         \<not> handles_nvlist zfscore_h (ret f)
         \<and> (\<forall>p \<in> set (params f).
               handles_nvlist zfscore_h (ptype p) \<longrightarrow>
                 ptype p = Ptr (Named ''nvlist_t'') \<or> ptype p = Ptr (Ptr (Named ''nvlist_t''))))"
proof -
  have decls: "struct_fwds zfscore_h = [''nvlist''] \<and> struct_defs zfscore_h = []"
    by (simp add: zfscore_h_def struct_fwds_map_Function struct_defs_map_Function)
  have name: "typedef_of zfscore_h ''nvlist_t'' = Some (StructT ''nvlist'')"
    by (simp add: typedef_of_def typedefs_zfscore_h)
  have uses: "\<forall>f \<in> set (prototypes zfscore_h).
         \<not> handles_nvlist zfscore_h (ret f)
         \<and> (\<forall>p \<in> set (params f).
               handles_nvlist zfscore_h (ptype p) \<longrightarrow>
                 ptype p = Ptr (Named ''nvlist_t'') \<or> ptype p = Ptr (Ptr (Named ''nvlist_t'')))"
    by (simp add: prototypes_zfscore_h zfscore_prototypes_def handles_nvlist_simps)
  show ?thesis using decls name uses by blast
qed

theorem nvlist_opaque_witness:
  "Fun ''lzc_snapshot'' IntT
      [Param None (Ptr (Named ''nvlist_t'')), Param None (Ptr (Named ''nvlist_t'')),
       Param None (Ptr (Ptr (Named ''nvlist_t'')))] \<in> set (prototypes zfscore_h)
   \<and> handles_nvlist zfscore_h (ptype (Param None (Ptr (Ptr (Named ''nvlist_t'')))))
   \<and> \<not> handles_nvlist zfscore_h IntT
   \<and> ptr_depth (ptype (Param None (Ptr (Ptr (Named ''nvlist_t''))))) = 2"
proof -
  let ?p = "Param None (Ptr (Ptr (Named ''nvlist_t'')))"
  let ?f = "Fun ''lzc_snapshot'' IntT
      [Param None (Ptr (Named ''nvlist_t'')), Param None (Ptr (Named ''nvlist_t'')), ?p]"
  have mem: "?f \<in> set (prototypes zfscore_h)"
    by (simp add: prototypes_zfscore_h zfscore_prototypes_def)
  have par: "?p \<in> set (params ?f)"
    by simp
  have handled: "handles_nvlist zfscore_h (ptype ?p)"
    by (simp add: handles_nvlist_simps)
  have "\<not> handles_nvlist zfscore_h (ret ?f)
      \<and> (ptype ?p = Ptr (Named ''nvlist_t'') \<or> ptype ?p = Ptr (Ptr (Named ''nvlist_t'')))"
    using nvlist_opaque mem par handled by blast
  then show ?thesis using mem handled by simp
qed

section \<open>What the finalisation function hands back\<close>

lemma lookup_libzfs_core_fini:
  "lookup_fun zfscore_h ''libzfs_core_fini'' = Some (Fun ''libzfs_core_fini'' VoidT [])"
  by (simp add: lookup_fun_def prototypes_zfscore_h zfscore_prototypes_def)

text \<open>
  Claim C8. \<^verbatim>\<open>libzfs_core_fini\<close> is declared \<^verbatim>\<open>void libzfs_core_fini(void)\<close>: it returns
  no value, so no status code, and it has no parameter through which it could report
  anything. A call hands nothing back to its caller.
\<close>

theorem libzfs_core_fini_returns_nothing:
  "lookup_fun zfscore_h ''libzfs_core_fini'' = Some (Fun ''libzfs_core_fini'' VoidT [])
   \<and> ret (Fun ''libzfs_core_fini'' VoidT []) = VoidT
   \<and> \<not> returns_value zfscore_h (Fun ''libzfs_core_fini'' VoidT [])
   \<and> \<not> returns_int zfscore_h (Fun ''libzfs_core_fini'' VoidT [])
   \<and> result_channels zfscore_h (Fun ''libzfs_core_fini'' VoidT []) = []"
  by (simp add: lookup_libzfs_core_fini returns_value_def returns_int_def result_channels_def
      out_params_def resolve_simps)

end
